theory Spec2Isabelle
  imports Main "HOL-Library.Word" "HOL-Library.Sublist" "HOL-Library.Multiset" "HOL-Library.Finite_Map"
begin

section \<open>The logging framework's severity levels\<close>

text \<open>
  The hook is written against logrus. Its \<^verbatim>\<open>Level\<close> is \<^verbatim>\<open>uint32\<close>; the seven constants
  are numbered by \<^verbatim>\<open>iota\<close> from the most severe (\<^verbatim>\<open>PanicLevel = 0\<close>) to the most
  verbose (\<^verbatim>\<open>TraceLevel = 6\<close>), and \<^verbatim>\<open>AllLevels\<close> lists them in that order.
\<close>

type_synonym Level = "32 word"

definition PanicLevel :: Level where "PanicLevel = 0"
definition FatalLevel :: Level where "FatalLevel = 1"
definition ErrorLevel :: Level where "ErrorLevel = 2"
definition WarnLevel :: Level where "WarnLevel = 3"
definition InfoLevel :: Level where "InfoLevel = 4"
definition DebugLevel :: Level where "DebugLevel = 5"
definition TraceLevel :: Level where "TraceLevel = 6"

definition AllLevels :: "Level list" where
  "AllLevels = [PanicLevel, FatalLevel, ErrorLevel, WarnLevel, InfoLevel, DebugLevel, TraceLevel]"

text \<open>
  The spec's severity ordinal \<open>trace < debug < info < warn < error < fatal < panic\<close>:
  the rank of a level on that ascending scale (trace is 0, panic is 6). It is the
  mirror image of the numbering of \<^verbatim>\<open>Level\<close>.
\<close>

definition severity :: "Level \<Rightarrow> nat" where
  "severity l = 6 - unat l"

section \<open>Values, errors and the remote endpoint\<close>

text \<open>A Go \<^verbatim>\<open>error\<close>, kept as the text its \<^verbatim>\<open>Error()\<close> method returns.\<close>

datatype error = ErrorString string

fun Error :: "error \<Rightarrow> string" where
  "Error (ErrorString s) = s"

text \<open>
  The field values of a log entry are \<^verbatim>\<open>interface{}\<close>. The kinds written out here are
  strings, integers, booleans, errors and nil; any other value is carried by the text
  that \<^verbatim>\<open>%+v\<close> prints for it.
\<close>

datatype gvalue = VStr string | VInt int | VBool bool | VErr error | VNil | VOther string

record Entry =
  Level :: Level
  Message :: string
  Data :: "(string, gvalue) fmap"

text \<open>\<^verbatim>\<open>apiRequest\<close> and \<^verbatim>\<open>apiResponse\<close>; the opaque result payload is kept as its JSON text.\<close>

record apiRequest =
  ChatId_req :: string
  ThreadId_req :: string
  Text :: string
  ParseMode :: string

record apiResponse =
  Ok :: bool
  ErrorCode :: "int option"
  Desc :: "string option"
  Result :: "string option"

text \<open>
  What a request gives back to the hook: \<^verbatim>\<open>client.Get\<close> or \<^verbatim>\<open>client.Post\<close> fails
  (a transport error), or the body fails to decode, or a response is decoded.
\<close>

datatype reply = TransportError error | DecodeError error | Decoded apiResponse

text \<open>
  The caller's \<^verbatim>\<open>http.Client\<close>: its timeout (nanoseconds) and what its two request
  methods answer. \<^verbatim>\<open>Post\<close> takes the endpoint, the content type and the body.
\<close>

record Client =
  Timeout :: int
  Get :: "string \<Rightarrow> reply"
  Post :: "string \<Rightarrow> string \<Rightarrow> string \<Rightarrow> reply"

text \<open>
  The standard-library functions the hook calls and whose results it only passes on:
  \<^verbatim>\<open>url.JoinPath\<close> (its error is discarded by the hook, leaving the empty string),
  \<^verbatim>\<open>json.Marshal\<close> of a request and \<^verbatim>\<open>json.MarshalIndent\<close> of a response (error discarded).
\<close>

record Lib =
  JoinPath :: "string \<Rightarrow> string \<Rightarrow> string"
  Marshal :: "apiRequest \<Rightarrow> error + string"
  MarshalIndent :: "apiResponse \<Rightarrow> string"

section \<open>The hook and its configuration\<close>

text \<open>The mutex guards single field accesses; the model is sequential and leaves it out.\<close>

record TelegramHook =
  client :: Client
  appName :: string
  authToken :: string
  chatId :: string
  threadId :: string
  level :: Level
  async :: bool

definition ApiEndpoint :: "TelegramHook \<Rightarrow> string" where
  "ApiEndpoint h = ''https://api.telegram.org/bot'' @ authToken h"

definition AppName :: "TelegramHook \<Rightarrow> string" where
  "AppName h = appName h"

definition SetAppName :: "TelegramHook \<Rightarrow> string \<Rightarrow> TelegramHook" where
  "SetAppName h a = h\<lparr>appName := a\<rparr>"

definition AuthToken :: "TelegramHook \<Rightarrow> string" where
  "AuthToken h = authToken h"

definition SetAuthToken :: "TelegramHook \<Rightarrow> string \<Rightarrow> TelegramHook" where
  "SetAuthToken h t = h\<lparr>authToken := t\<rparr>"

definition ChatId :: "TelegramHook \<Rightarrow> string" where
  "ChatId h = chatId h"

definition SetChatId :: "TelegramHook \<Rightarrow> string \<Rightarrow> TelegramHook" where
  "SetChatId h c = h\<lparr>chatId := c\<rparr>"

definition ThreadId :: "TelegramHook \<Rightarrow> string" where
  "ThreadId h = threadId h"

definition SetThreadId :: "TelegramHook \<Rightarrow> string \<Rightarrow> TelegramHook" where
  "SetThreadId h t = h\<lparr>threadId := t\<rparr>"

definition Level_of :: "TelegramHook \<Rightarrow> Level" where
  "Level_of h = level h"

definition SetLevel :: "TelegramHook \<Rightarrow> Level \<Rightarrow> TelegramHook" where
  "SetLevel h l = h\<lparr>level := l\<rparr>"

definition Async :: "TelegramHook \<Rightarrow> bool" where
  "Async h = async h"

definition SetAsync :: "TelegramHook \<Rightarrow> bool \<Rightarrow> TelegramHook" where
  "SetAsync h a = h\<lparr>async := a\<rparr>"

text \<open>An option is a function applied to the hook under construction.\<close>

type_synonym Option = "TelegramHook \<Rightarrow> TelegramHook"

definition WithAsync :: "bool \<Rightarrow> Option" where
  "WithAsync a = (\<lambda>h. SetAsync h a)"

definition WithTimeout :: "int \<Rightarrow> Option" where
  "WithTimeout timeout = (\<lambda>h. if timeout > 0 then h\<lparr>client := (client h)\<lparr>Timeout := timeout\<rparr>\<rparr> else h)"

definition WithLevel :: "Level \<Rightarrow> Option" where
  "WithLevel l = (\<lambda>h. SetLevel h l)"

section \<open>Levels\<close>

text \<open>
  \<^verbatim>\<open>logrus.AllLevels[:h.level+1]\<close>. The bound is computed in \<^verbatim>\<open>uint32\<close> and wraps; a
  bound beyond the seven levels is a run-time panic (slice bounds out of range).
\<close>

datatype panic = SliceBoundsOutOfRange

definition Levels :: "TelegramHook \<Rightarrow> panic + Level list" where
  "Levels h =
     (let high = unat (level h + 1)
      in if high > length AllLevels then Inl SliceBoundsOutOfRange
         else Inr (take high AllLevels))"

section \<open>Text formatting\<close>

definition nl :: char where "nl = CHR 0x0A"
definition tab :: char where "tab = CHR 0x09"

text \<open>\<^verbatim>\<open>strings.Join\<close>.\<close>

fun Join :: "string list \<Rightarrow> string \<Rightarrow> string" where
  "Join [] sep = []"
| "Join [x] sep = x"
| "Join (x # y # ys) sep = x @ sep @ Join (y # ys) sep"

text \<open>The verb \<^verbatim>\<open>%d\<close> on an \<^verbatim>\<open>int\<close>: decimal digits, with a minus sign when negative.\<close>

definition digit_char :: "nat \<Rightarrow> char" where
  "digit_char n = char_of (48 + n)"

fun decimal :: "nat \<Rightarrow> string" where
  "decimal n = (if n < 10 then [digit_char n] else decimal (n div 10) @ [digit_char (n mod 10)])"

declare decimal.simps [simp del]

definition itoa :: "int \<Rightarrow> string" where
  "itoa i = (if i < 0 then CHR ''-'' # decimal (nat (- i)) else decimal (nat i))"

text \<open>The verb \<^verbatim>\<open>%+v\<close> on a field value.\<close>

fun fmt_v :: "gvalue \<Rightarrow> string" where
  "fmt_v (VStr s) = s"
| "fmt_v (VInt i) = itoa i"
| "fmt_v (VBool b) = (if b then ''true'' else ''false'')"
| "fmt_v (VErr e) = Error e"
| "fmt_v VNil = ''<nil>''"
| "fmt_v (VOther s) = s"

text \<open>
  \<^verbatim>\<open>html.EscapeString\<close>: a replacer over the five characters
  \<^verbatim>\<open>&\<close>, \<^verbatim>\<open>'\<close>, \<^verbatim>\<open><\<close>, \<^verbatim>\<open>>\<close> and \<^verbatim>\<open>"\<close>.
\<close>

definition escape_char :: "char \<Rightarrow> string" where
  "escape_char c =
     (if c = CHR ''&'' then ''&amp;''
      else if c = CHR 0x27 then ''&#39;''
      else if c = CHR ''<'' then ''&lt;''
      else if c = CHR ''>'' then ''&gt;''
      else if c = CHR 0x22 then ''&#34;''
      else [c])"

definition EscapeString :: "string \<Rightarrow> string" where
  "EscapeString s = concat (map escape_char s)"

text \<open>
  \<^verbatim>\<open>html.UnescapeString\<close>, on the five entities that \<^verbatim>\<open>EscapeString\<close> writes; every
  other byte is copied. (The library function also knows the named and numeric
  entities of HTML5, none of which \<^verbatim>\<open>EscapeString\<close> produces.)
\<close>

fun UnescapeString :: "string \<Rightarrow> string" where
  "UnescapeString [] = []"
| "UnescapeString (c # cs) =
     (if c \<noteq> CHR ''&'' then c # UnescapeString cs
      else if prefix ''amp;'' cs then CHR ''&'' # UnescapeString (drop 4 cs)
      else if prefix ''#39;'' cs then CHR 0x27 # UnescapeString (drop 4 cs)
      else if prefix ''lt;'' cs then CHR ''<'' # UnescapeString (drop 3 cs)
      else if prefix ''gt;'' cs then CHR ''>'' # UnescapeString (drop 3 cs)
      else if prefix ''#34;'' cs then CHR 0x22 # UnescapeString (drop 4 cs)
      else c # UnescapeString cs)"

section \<open>createMessage\<close>

text \<open>
  Ranging over a Go map visits every entry once, in an order that the language leaves
  unspecified and that changes from one loop to the next. The order that a run takes is
  an argument of the model: the list of the entries as the loop meets them.
\<close>

definition range_order :: "(string, gvalue) fmap \<Rightarrow> (string \<times> gvalue) list \<Rightarrow> bool" where
  "range_order m kvs \<longleftrightarrow> distinct (map fst kvs) \<and> fmap_of_list kvs = m"

text \<open>\<^verbatim>\<open>len\<close> of a map: the number of its keys.\<close>

definition len :: "(string, gvalue) fmap \<Rightarrow> nat" where
  "len m = fcard (fmdom m)"

definition createMessage :: "TelegramHook \<Rightarrow> Entry \<Rightarrow> (string \<times> gvalue) list \<Rightarrow> string" where
  "createMessage h entry kvs =
     (let msg = (if Level entry = PanicLevel then ''<b>PANIC</b>''
                 else if Level entry = FatalLevel then ''<b>FATAL</b>''
                 else if Level entry = ErrorLevel then ''<b>ERROR</b>''
                 else if Level entry = WarnLevel then ''<b>WARNING</b>''
                 else if Level entry = InfoLevel then ''<b>INFO</b>''
                 else if Level entry = DebugLevel then ''<b>DEBUG</b>''
                 else []);
          msg = Join [msg, AppName h] ''@'';
          msg = Join [msg, Message entry] '' - ''
      in if len (Data entry) > 0 then
           (let msg = Join [msg, ''<pre>''] [nl];
                msg = fold (\<lambda>(k, v) msg.
                        Join [msg, EscapeString (tab # k @ '': '' @ fmt_v v)] [nl]) kvs msg
            in Join [msg, ''</pre>''] [nl])
         else msg)"

section \<open>A format string printed with no operands\<close>

text \<open>
  \<^verbatim>\<open>sendMessage\<close> ends with \<^verbatim>\<open>fmt.Errorf(msg)\<close>: the text it has built is the format
  string, and there are no operands. What follows is the scan of \<^verbatim>\<open>fmt\<close>'s
  \<^verbatim>\<open>doPrintf\<close> in that case: plain bytes are copied, and every \<^verbatim>\<open>%\<close> opens a
  directive (flags, argument index, width, precision, verb) that finds no operand.
\<close>

definition isFlag :: "char \<Rightarrow> bool" where
  "isFlag c \<longleftrightarrow> c = CHR ''#'' \<or> c = CHR ''0'' \<or> c = CHR ''+'' \<or> c = CHR ''-'' \<or> c = CHR '' ''"

definition isDigit :: "char \<Rightarrow> bool" where
  "isDigit c \<longleftrightarrow> 48 \<le> (of_char c :: nat) \<and> (of_char c :: nat) \<le> 57"

definition tooLarge :: "nat \<Rightarrow> bool" where
  "tooLarge x \<longleftrightarrow> x > 1000000"

text \<open>\<^verbatim>\<open>parsenum(s, start, end)\<close>: the number read, whether one was read, and where it stops.\<close>

function parsenum_from :: "string \<Rightarrow> nat \<Rightarrow> nat \<Rightarrow> nat \<Rightarrow> bool \<Rightarrow> nat \<times> bool \<times> nat" where
  "parsenum_from s e newi num isnum =
     (if newi < e \<and> isDigit (s ! newi)
      then (if tooLarge num then (0, False, e)
            else parsenum_from s e (Suc newi) (num * 10 + ((of_char (s ! newi) :: nat) - 48)) True)
      else (num, isnum, newi))"
  by pat_completeness auto
termination
  by (relation "measure (\<lambda>(s, e, newi, num, isnum). e - newi)") auto

declare parsenum_from.simps [simp del]

definition parsenum :: "string \<Rightarrow> nat \<Rightarrow> nat \<Rightarrow> nat \<times> bool \<times> nat" where
  "parsenum s start e = (if start \<ge> e then (0, False, e) else parsenum_from s e start 0 False)"

text \<open>
  \<^verbatim>\<open>parseArgNumber\<close> on a text that starts with \<^verbatim>\<open>[\<close>: the width of the bracketed
  index and whether it is a number. With no operands no index is in range, so the index
  itself is not kept.
\<close>

definition parseArgNumber :: "string \<Rightarrow> nat \<times> bool" where
  "parseArgNumber format =
     (if length format < 3 then (1, False)
      else if CHR '']'' \<in> set (tl format) then
        (let i = Suc (length (takeWhile (\<lambda>c. c \<noteq> CHR '']'') (tl format)))
         in case parsenum format 1 i of
              (width, ok, newi) \<Rightarrow> if \<not> ok \<or> newi \<noteq> i then (i + 1, False) else (i + 1, True))
      else (1, False))"

text \<open>
  \<^verbatim>\<open>argNumber\<close> with no operands: the new position, whether an index was found, and
  whether \<^verbatim>\<open>goodArgNum\<close> survives (any bracket clears it).
\<close>

definition argNumber :: "string \<Rightarrow> nat \<Rightarrow> nat \<times> bool \<times> bool" where
  "argNumber format i =
     (if length format \<le> i \<or> format ! i \<noteq> CHR ''['' then (i, False, True)
      else (case parseArgNumber (drop i format) of (wid, ok) \<Rightarrow> (i + wid, ok, False)))"

text \<open>
  The verb is a rune. \<^verbatim>\<open>utf8.DecodeRuneInString\<close> followed by \<^verbatim>\<open>writeRune\<close>: a
  well-formed sequence is written back as it is, anything else as U+FFFD, one byte
  consumed.
\<close>

definition runeError :: string where
  "runeError = [CHR 0xEF, CHR 0xBF, CHR 0xBD]"

definition acceptRange :: "nat \<Rightarrow> (nat \<times> nat \<times> nat) option" where
  "acceptRange b0 =
     (if 0xC2 \<le> b0 \<and> b0 \<le> 0xDF then Some (2, 0x80, 0xBF)
      else if b0 = 0xE0 then Some (3, 0xA0, 0xBF)
      else if 0xE1 \<le> b0 \<and> b0 \<le> 0xEC then Some (3, 0x80, 0xBF)
      else if b0 = 0xED then Some (3, 0x80, 0x9F)
      else if 0xEE \<le> b0 \<and> b0 \<le> 0xEF then Some (3, 0x80, 0xBF)
      else if b0 = 0xF0 then Some (4, 0x90, 0xBF)
      else if 0xF1 \<le> b0 \<and> b0 \<le> 0xF3 then Some (4, 0x80, 0xBF)
      else if b0 = 0xF4 then Some (4, 0x80, 0x8F)
      else None)"

definition inRange :: "char \<Rightarrow> nat \<Rightarrow> nat \<Rightarrow> bool" where
  "inRange c lo hi \<longleftrightarrow> lo \<le> (of_char c :: nat) \<and> (of_char c :: nat) \<le> hi"

fun decodeRune :: "string \<Rightarrow> string \<times> nat" where
  "decodeRune [] = (runeError, 0)"
| "decodeRune (c0 # cs) =
     (if (of_char c0 :: nat) < 0x80 then ([c0], 1)
      else (case acceptRange (of_char c0) of
              None \<Rightarrow> (runeError, 1)
            | Some (sz, lo, hi) \<Rightarrow>
                if Suc (length cs) < sz then (runeError, 1)
                else if \<not> inRange (cs ! 0) lo hi then (runeError, 1)
                else if sz \<le> 2 then (c0 # take 1 cs, 2)
                else if \<not> inRange (cs ! 1) 0x80 0xBF then (runeError, 1)
                else if sz \<le> 3 then (c0 # take 2 cs, 3)
                else if \<not> inRange (cs ! 2) 0x80 0xBF then (runeError, 1)
                else (c0 # take 3 cs, 4)))"

text \<open>
  One directive: \<open>f\<close> is the format after the \<^verbatim>\<open>%\<close>. The result is what is written
  and how many bytes of \<open>f\<close> are used up.
\<close>

definition directive :: "string \<Rightarrow> string \<times> nat" where
  "directive f =
     (let e = length f;
          i = length (takeWhile isFlag f);
          (i, afterIndex, good) = argNumber f i;
          (out, i, afterIndex, good) =
            (if i < e \<and> f ! i = CHR ''*'' then (''%!(BADWIDTH)'', i + 1, False, good)
             else (case parsenum f i e of
                     (wid, widPresent, i') \<Rightarrow>
                       ([], i', afterIndex, good \<and> \<not> (afterIndex \<and> widPresent))));
          (out, i, afterIndex, good) =
            (if i + 1 \<le> e \<and> f ! i = CHR ''.'' then
               (case argNumber f (i + 1) of
                  (j, afterIndex', good') \<Rightarrow>
                    if j < e \<and> f ! j = CHR ''*''
                    then (out @ ''%!(BADPREC)'', j + 1, False, good \<and> \<not> afterIndex \<and> good')
                    else (case parsenum f j e of
                            (prec, precPresent, j') \<Rightarrow>
                              (out, j', afterIndex', good \<and> \<not> afterIndex \<and> good')))
             else (out, i, afterIndex, good));
          (i, afterIndex, good) =
            (if \<not> afterIndex
             then (case argNumber f i of (i', found, good') \<Rightarrow> (i', found, good \<and> good'))
             else (i, afterIndex, good))
      in if i \<ge> e then (out @ ''%!(NOVERB)'', e)
         else (case decodeRune (drop i f) of
                 (verb, n) \<Rightarrow>
                   (out @ (if verb = [CHR ''%''] then [CHR ''%'']
                           else if \<not> good then ''%!'' @ verb @ ''(BADINDEX)''
                           else ''%!'' @ verb @ ''(MISSING)''),
                    i + n)))"

fun doPrintf0 :: "string \<Rightarrow> string" where
  "doPrintf0 [] = []"
| "doPrintf0 (c # cs) =
     (if c \<noteq> CHR ''%'' then c # doPrintf0 cs
      else fst (directive cs) @ doPrintf0 (drop (snd (directive cs)) cs))"

definition Errorf0 :: "string \<Rightarrow> error" where
  "Errorf0 format = ErrorString (doPrintf0 format)"

section \<open>Remote calls\<close>

text \<open>
  The text both remote calls build from a response whose \<^verbatim>\<open>ok\<close> is false. The source
  writes it out twice, in \<^verbatim>\<open>verifyToken\<close> and in \<^verbatim>\<open>sendMessage\<close>, with
  \<^verbatim>\<open>Sprintf("%s (error code %d)", \<dots>)\<close> and \<^verbatim>\<open>Sprintf("%s: %s", \<dots>)\<close>.
\<close>

definition errorText :: "apiResponse \<Rightarrow> string" where
  "errorText apiRes =
     (let msg = ''Received error response from Telegram API'';
          msg = (case ErrorCode apiRes of
                   Some c \<Rightarrow> msg @ '' (error code '' @ itoa c @ '')''
                 | None \<Rightarrow> msg);
          msg = (case Desc apiRes of
                   Some d \<Rightarrow> msg @ '': '' @ d
                 | None \<Rightarrow> msg)
      in msg)"

definition verifyToken :: "Lib \<Rightarrow> TelegramHook \<Rightarrow> error option" where
  "verifyToken lib h =
     (let endpoint = JoinPath lib (ApiEndpoint h) ''getMe''
      in case Get (client h) endpoint of
           TransportError err \<Rightarrow> Some err
         | DecodeError err \<Rightarrow> Some err
         | Decoded apiRes \<Rightarrow>
             if \<not> Ok apiRes then
               (let msg = errorText apiRes;
                    j = MarshalIndent lib apiRes
                in Some (ErrorString (msg @ [nl] @ j)))
             else None)"

text \<open>
  \<^verbatim>\<open>sendMessage\<close> returns its error and what it wrote to the error stream (one element
  for each write).
\<close>

definition sendMessage :: "Lib \<Rightarrow> TelegramHook \<Rightarrow> string \<Rightarrow> error option \<times> string list" where
  "sendMessage lib h msg =
     (let apiReq = \<lparr>ChatId_req = ChatId h, ThreadId_req = ThreadId h,
                     Text = msg, ParseMode = ''HTML''\<rparr>
      in case Marshal lib apiReq of
           Inl err \<Rightarrow> (Some err, [])
         | Inr b \<Rightarrow>
             (let endpoint = JoinPath lib (ApiEndpoint h) ''sendMessage''
              in case Post (client h) endpoint ''application/json'' b of
                   TransportError err \<Rightarrow>
                     (Some err,
                      [''Encountered error when issuing request to Telegram API, '' @ Error err])
                 | DecodeError err \<Rightarrow> (Some err, [])
                 | Decoded apiRes \<Rightarrow>
                     if \<not> Ok apiRes then (Some (Errorf0 (errorText apiRes)), [])
                     else (None, [])))"

section \<open>Fire\<close>

text \<open>
  What a call of \<^verbatim>\<open>Fire\<close> leaves behind: the error it returns, what the calling thread
  wrote to the error stream, and the messages handed to a detached
  \<^verbatim>\<open>go h.sendMessage(msg)\<close>.
\<close>

record Fired =
  returned :: "error option"
  stderr :: "string list"
  spawned :: "string list"

definition Fire :: "Lib \<Rightarrow> TelegramHook \<Rightarrow> Entry \<Rightarrow> (string \<times> gvalue) list \<Rightarrow> Fired" where
  "Fire lib h entry kvs =
     (let msg = createMessage h entry kvs
      in if Async h then \<lparr>returned = None, stderr = [], spawned = [msg]\<rparr>
         else (case sendMessage lib h msg of
                 (Some err, written) \<Rightarrow>
                   \<lparr>returned = Some err,
                    stderr = written @ [''Unable to send message, '' @ Error err],
                    spawned = []\<rparr>
               | (None, written) \<Rightarrow> \<lparr>returned = None, stderr = written, spawned = []\<rparr>))"

text \<open>
  The detached send: the statement \<^verbatim>\<open>go h.sendMessage(msg)\<close> drops the error that
  \<^verbatim>\<open>sendMessage\<close> returns, so only its writes to the error stream are left.
\<close>

definition detached :: "Lib \<Rightarrow> TelegramHook \<Rightarrow> string \<Rightarrow> string list" where
  "detached lib h msg = snd (sendMessage lib h msg)"

section \<open>Construction\<close>

definition NewTelegramHookWithClient ::
  "Lib \<Rightarrow> string \<Rightarrow> string \<Rightarrow> string \<Rightarrow> string \<Rightarrow> Client \<Rightarrow> Option list \<Rightarrow> error + TelegramHook" where
  "NewTelegramHookWithClient lib appName' authToken' chatId' threadId' client' options =
     (let h = \<lparr>client = client', appName = appName', authToken = authToken',
                chatId = chatId', threadId = threadId', level = ErrorLevel, async = False\<rparr>;
          h = fold (\<lambda>opt h. opt h) options h
      in case verifyToken lib h of
           Some err \<Rightarrow> Inl err
         | None \<Rightarrow> Inr h)"

text \<open>\<^verbatim>\<open>NewTelegramHook\<close> makes a fresh client; what that client answers is the argument.\<close>

definition NewTelegramHook ::
  "Lib \<Rightarrow> Client \<Rightarrow> string \<Rightarrow> string \<Rightarrow> string \<Rightarrow> string \<Rightarrow> Option list \<Rightarrow> error + TelegramHook" where
  "NewTelegramHook lib fresh appName' authToken' chatId' threadId' options =
     NewTelegramHookWithClient lib appName' authToken' chatId' threadId' (fresh\<lparr>Timeout := 0\<rparr>) options"

section \<open>The parts of a formatted message\<close>

text \<open>
  Names for the pieces that \<^verbatim>\<open>createMessage\<close> joins: the label its \<^verbatim>\<open>switch\<close> picks,
  the first line, the text of one field before and after escaping, and the
  \<^verbatim>\<open><pre>\<close> block around the field lines (absent when there is no line).
\<close>

definition levelLabel :: "Level \<Rightarrow> string" where
  "levelLabel l =
     (if l = PanicLevel then ''<b>PANIC</b>''
      else if l = FatalLevel then ''<b>FATAL</b>''
      else if l = ErrorLevel then ''<b>ERROR</b>''
      else if l = WarnLevel then ''<b>WARNING</b>''
      else if l = InfoLevel then ''<b>INFO</b>''
      else if l = DebugLevel then ''<b>DEBUG</b>''
      else [])"

definition header :: "TelegramHook \<Rightarrow> Entry \<Rightarrow> string" where
  "header h entry = levelLabel (Level entry) @ ''@'' @ AppName h @ '' - '' @ Message entry"

definition rawLine :: "string \<times> gvalue \<Rightarrow> string" where
  "rawLine kv = tab # fst kv @ '': '' @ fmt_v (snd kv)"

definition fieldLine :: "string \<times> gvalue \<Rightarrow> string" where
  "fieldLine kv = EscapeString (rawLine kv)"

definition block :: "string list \<Rightarrow> string" where
  "block ls =
     (if ls = [] then []
      else nl # ''<pre>'' @ concat (map (\<lambda>l. nl # l) ls) @ nl # ''</pre>'')"

text \<open>The entities of \<^verbatim>\<open>EscapeString\<close>, without the ampersand that opens them.\<close>

definition entities :: "string list" where
  "entities = [''amp;'', ''#39;'', ''lt;'', ''gt;'', ''#34;'']"

section \<open>Registration with the logging framework\<close>

text \<open>
  \<^verbatim>\<open>AddHook\<close> files the hook under every level that \<^verbatim>\<open>Levels()\<close> returns; the
  framework then fires it for the entries of exactly those levels.
\<close>

definition registered_for :: "TelegramHook \<Rightarrow> Level \<Rightarrow> bool" where
  "registered_for h S = (case Levels h of Inl _ \<Rightarrow> False | Inr ls \<Rightarrow> S \<in> set ls)"

section \<open>Concrete inputs\<close>

text \<open>
  A library instance for the examples: a base URL without a trailing slash is joined
  with \<^verbatim>\<open>/\<close>, and the JSON texts are those of values that need no escaping.
\<close>

definition plain_lib :: Lib where
  "plain_lib =
     \<lparr>JoinPath = (\<lambda>base elem. base @ ''/'' @ elem),
      Marshal = (\<lambda>r. Inr (''{chat_id:'' @ ChatId_req r @ '',text:'' @ Text r @ ''}'')),
      MarshalIndent = (\<lambda>r. if Ok r then ''{ok:true}'' else ''{ok:false}'')\<rparr>"

definition ok_response :: apiResponse where
  "ok_response = \<lparr>Ok = True, ErrorCode = None, Desc = None, Result = Some ''{}''\<rparr>"

definition accepting_client :: Client where
  "accepting_client =
     \<lparr>Timeout = 0, Get = (\<lambda>endpoint. Decoded ok_response),
      Post = (\<lambda>endpoint ctype body. Decoded ok_response)\<rparr>"

definition svc_hook :: TelegramHook where
  "svc_hook =
     \<lparr>client = accepting_client, appName = ''svc'', authToken = ''123:ABC'',
      chatId = ''42'', threadId = [], level = ErrorLevel, async = False\<rparr>"

definition boom :: Entry where
  "boom = \<lparr>Level = ErrorLevel, Message = ''boom'', Data = fmap_of_list [(''n'', VInt 1)]\<rparr>"

definition two_fields :: Entry where
  "two_fields = \<lparr>Level = ErrorLevel, Message = ''boom'',
                  Data = fmap_of_list [(''a'', VInt 1), (''b'', VInt 2)]\<rparr>"

definition html_field :: Entry where
  "html_field = \<lparr>Level = ErrorLevel, Message = ''A walrus appears'',
                  Data = fmap_of_list [(''html'', VStr ''<b>R&D</b>'')]\<rparr>"

definition trace_entry :: Entry where
  "trace_entry = \<lparr>Level = TraceLevel, Message = ''step'', Data = fmempty\<rparr>"

text \<open>A remote that rejects the credential, for \<^verbatim>\<open>getMe\<close> and for \<^verbatim>\<open>sendMessage\<close>.\<close>

definition unauthorized :: apiResponse where
  "unauthorized = \<lparr>Ok = False, ErrorCode = Some 401, Desc = Some ''Unauthorized'', Result = None\<rparr>"

definition rejecting_client :: Client where
  "rejecting_client =
     \<lparr>Timeout = 0, Get = (\<lambda>endpoint. Decoded unauthorized),
      Post = (\<lambda>endpoint ctype body. Decoded unauthorized)\<rparr>"

text \<open>A remote that accepts the credential and rejects a message, with a percent sign in its description.\<close>

definition too_long :: apiResponse where
  "too_long = \<lparr>Ok = False, ErrorCode = Some 400,
                Desc = Some ''Bad Request: message is 100% too long'', Result = None\<rparr>"

definition too_long_client :: Client where
  "too_long_client =
     \<lparr>Timeout = 0, Get = (\<lambda>endpoint. Decoded ok_response),
      Post = (\<lambda>endpoint ctype body. Decoded too_long)\<rparr>"

text \<open>
  A client whose connection is refused. \<^verbatim>\<open>net/http\<close> returns such a failure as a
  \<^verbatim>\<open>*url.Error\<close>, whose text is the method, the quoted URL of the request and the cause.
\<close>

definition url_Error :: "string \<Rightarrow> string \<Rightarrow> string \<Rightarrow> error" where
  "url_Error op url cause = ErrorString (op @ '' '' @ [CHR 0x22] @ url @ [CHR 0x22] @ '': '' @ cause)"

definition refusing_client :: Client where
  "refusing_client =
     \<lparr>Timeout = 0,
      Get = (\<lambda>endpoint. TransportError (url_Error ''Get'' endpoint ''connection refused'')),
      Post = (\<lambda>endpoint ctype body.
                TransportError (url_Error ''Post'' endpoint ''connection refused''))\<rparr>"

section \<open>The severity filter\<close>

lemma unat_level_le: "l \<le> TraceLevel \<Longrightarrow> unat (l :: Level) \<le> 6"
  by (simp add: TraceLevel_def word_le_nat_alt)

lemma unat_level_Suc: "l \<le> TraceLevel \<Longrightarrow> unat (l + 1 :: Level) = Suc (unat l)"
  using unat_level_le[of l] by (simp add: unat_word_ariths)

lemma AllLevels_upt: "AllLevels = map of_nat [0..<7]"
  by (simp add: AllLevels_def PanicLevel_def FatalLevel_def ErrorLevel_def WarnLevel_def
      InfoLevel_def DebugLevel_def TraceLevel_def upt_rec)

lemma take_AllLevels: "n \<le> 7 \<Longrightarrow> take n AllLevels = map of_nat [0..<n]"
  by (simp add: AllLevels_upt take_map)

lemma mem_small_levels:
  assumes "n \<le> 7"
  shows "(S :: Level) \<in> of_nat ` {0..<n} \<longleftrightarrow> unat S < n"
proof
  assume "S \<in> of_nat ` {0..<n}"
  then obtain k where k: "k < n" "S = of_nat k" by auto
  with assms have "unat S = k" by (simp add: unat_of_nat)
  with k show "unat S < n" by simp
next
  assume "unat S < n"
  then have "unat S \<in> {0..<n}" by simp
  then have "of_nat (unat S) \<in> (of_nat ` {0..<n} :: Level set)" by (rule imageI)
  then show "S \<in> of_nat ` {0..<n}" by simp
qed

lemma Levels_valid:
  assumes "level h \<le> TraceLevel"
  shows "Levels h = Inr (take (Suc (unat (level h))) AllLevels)"
proof -
  have "unat (level h + 1) = Suc (unat (level h))" "Suc (unat (level h)) \<le> 7"
    using unat_level_Suc[OF assms] unat_level_le[OF assms] by simp_all
  moreover have "length AllLevels = 7" by (simp add: AllLevels_def)
  ultimately show ?thesis by (simp add: Levels_def)
qed

lemma registered_for_iff:
  assumes "level h \<le> TraceLevel"
  shows "registered_for h S \<longleftrightarrow> S \<le> level h"
proof -
  have n: "Suc (unat (level h)) \<le> 7"
    using unat_level_le[OF assms] by simp
  show ?thesis
    using mem_small_levels[OF n, of S]
    by (simp add: registered_for_def Levels_valid[OF assms] take_AllLevels[OF n]
        word_le_nat_alt less_Suc_eq_le del: upt_Suc)
qed

text \<open>
  C1, as stated, at the threshold \<^verbatim>\<open>ErrorLevel\<close>: trace lies below error on the
  ascending severity scale, and the hook is not registered for it; panic lies above
  error, and the hook is registered for it.
\<close>

theorem Levels_not_trace_up_to_threshold:
  "severity TraceLevel \<le> severity (level svc_hook) \<and> \<not> registered_for svc_hook TraceLevel \<and>
   \<not> severity PanicLevel \<le> severity (level svc_hook) \<and> registered_for svc_hook PanicLevel"
  by (simp add: severity_def svc_hook_def registered_for_def Levels_def AllLevels_def
      PanicLevel_def FatalLevel_def ErrorLevel_def WarnLevel_def InfoLevel_def DebugLevel_def
      TraceLevel_def)

text \<open>
  C1, amended: for a threshold \<open>T\<close> among the seven levels, \<^verbatim>\<open>Levels()\<close> is the prefix of
  \<^verbatim>\<open>AllLevels\<close> from panic down to and including \<open>T\<close>; the hook accepts a severity
  \<open>S\<close> if and only if \<open>S\<close> is one of the seven levels and is at or above \<open>T\<close> on
  the ascending severity scale, that is, \<open>S \<le> T\<close> in the framework's numbering.
\<close>

theorem Levels_threshold_and_above:
  assumes "level h \<le> TraceLevel"
  shows "Levels h = Inr (take (Suc (unat (level h))) AllLevels) \<and>
         (\<forall>S. registered_for h S \<longleftrightarrow> S \<le> level h) \<and>
         (\<forall>S. registered_for h S \<longleftrightarrow> S \<le> TraceLevel \<and> severity (level h) \<le> severity S)"
proof -
  have "S \<le> level h \<longleftrightarrow> S \<le> TraceLevel \<and> severity (level h) \<le> severity S" for S
    using unat_level_le[OF assms] unat_level_le[of S] assms
    by (auto simp: severity_def word_le_nat_alt)
  then show ?thesis
    using Levels_valid[OF assms] registered_for_iff[OF assms] by simp
qed

theorem Levels_threshold_and_above_witness:
  "level svc_hook \<le> TraceLevel \<and>
   Levels svc_hook = Inr [PanicLevel, FatalLevel, ErrorLevel] \<and>
   registered_for svc_hook FatalLevel \<and> \<not> registered_for svc_hook WarnLevel"
proof -
  have le: "level svc_hook \<le> TraceLevel"
    by (simp add: svc_hook_def ErrorLevel_def TraceLevel_def)
  have "unat (level svc_hook) = 2"
    by (simp add: svc_hook_def ErrorLevel_def)
  moreover have "FatalLevel \<le> level svc_hook" "\<not> WarnLevel \<le> level svc_hook"
    by (simp_all add: svc_hook_def ErrorLevel_def FatalLevel_def WarnLevel_def)
  ultimately show ?thesis
    using le Levels_threshold_and_above[OF le]
    by (simp add: AllLevels_def numeral_2_eq_2)
qed

section \<open>The shape of a formatted message\<close>

lemma fold_lines:
  "fold (\<lambda>kv msg. msg @ nl # g kv) kvs msg = msg @ concat (map (\<lambda>kv. nl # g kv) kvs)"
  by (induction kvs arbitrary: msg) auto

lemma createMessage_shape:
  "createMessage h entry kvs =
     (if len (Data entry) > 0
      then header h entry @ nl # ''<pre>'' @ concat (map (\<lambda>l. nl # l) (map fieldLine kvs))
             @ nl # ''</pre>''
      else header h entry)"
  by (simp add: createMessage_def header_def levelLabel_def fold_lines Let_def
      fieldLine_def rawLine_def comp_def case_prod_unfold)

lemma len_range_order:
  assumes "range_order m kvs"
  shows "len m = length kvs"
proof -
  from assms have d: "distinct (map fst kvs)" and m: "m = fmap_of_list kvs"
    by (simp_all add: range_order_def)
  have "len m = card (fst ` set kvs)"
    by (simp add: len_def m fmdom_of_list fcard.rep_eq fset_of_list.rep_eq)
  also have "\<dots> = length (map fst kvs)"
    using distinct_card[OF d] by simp
  finally show ?thesis by simp
qed

lemma createMessage_block:
  assumes "range_order (Data entry) kvs"
  shows "createMessage h entry kvs = header h entry @ block (map fieldLine kvs)"
  using len_range_order[OF assms]
  by (simp add: createMessage_shape block_def)

lemma range_order_mset:
  assumes "range_order m kvs1" "range_order m kvs2"
  shows "mset kvs1 = mset kvs2"
proof -
  from assms have d: "distinct (map fst kvs1)" "distinct (map fst kvs2)"
    and "fmap_of_list kvs1 = fmap_of_list kvs2"
    by (simp_all add: range_order_def)
  then have "fmlookup (fmap_of_list kvs1) = fmlookup (fmap_of_list kvs2)" by simp
  then have "map_of kvs1 = map_of kvs2" by (simp add: fmlookup_of_list)
  with d have "set kvs1 = set kvs2" by (simp add: map_of_inject_set)
  moreover from d have "distinct kvs1" "distinct kvs2" by (simp_all add: distinct_map)
  ultimately show ?thesis by (simp add: set_eq_iff_mset_eq_distinct)
qed

lemma range_order_single:
  assumes "range_order (fmap_of_list [kv]) kvs"
  shows "kvs = [kv]"
proof -
  have "range_order (fmap_of_list [kv]) [kv]" by (simp add: range_order_def)
  from range_order_mset[OF assms this] show ?thesis by simp
qed

lemma range_order_short:
  assumes "range_order m kvs1" "range_order m kvs2" "len m \<le> 1"
  shows "kvs1 = kvs2"
proof -
  have ms: "mset kvs1 = mset kvs2" using assms(1,2) by (rule range_order_mset)
  have "length kvs1 \<le> 1" using len_range_order[OF assms(1)] assms(3) by simp
  then consider "kvs1 = []" | kv where "kvs1 = [kv]"
    by (cases kvs1; cases "tl kvs1") auto
  then show ?thesis
  proof cases
    case 1 with ms show ?thesis by simp
  next
    case 2 with ms show ?thesis by simp
  qed
qed

section \<open>Determinism of the formatter\<close>

text \<open>
  C2, as stated, on an event with the two fields \<open>a\<close> and \<open>b\<close>: both orders are orders
  in which the loop may meet the entries of the same map, and the two texts differ.
\<close>

theorem createMessage_two_fields_two_texts:
  "range_order (Data two_fields) [(''a'', VInt 1), (''b'', VInt 2)] \<and>
   range_order (Data two_fields) [(''b'', VInt 2), (''a'', VInt 1)] \<and>
   createMessage svc_hook two_fields [(''a'', VInt 1), (''b'', VInt 2)]
     \<noteq> createMessage svc_hook two_fields [(''b'', VInt 2), (''a'', VInt 1)]"
  by code_simp

text \<open>
  C2, amended: two calls on the same event and application name give the same first
  line and the same field lines, each line as often in one text as in the other; the
  order of the lines is the order in which the loop met the fields. With at most one
  field the two texts are byte-identical.
\<close>

theorem createMessage_deterministic_up_to_order:
  assumes "range_order (Data entry) kvs1" and "range_order (Data entry) kvs2"
  shows "(len (Data entry) \<le> 1 \<longrightarrow> createMessage h entry kvs1 = createMessage h entry kvs2) \<and>
         (\<exists>ls1 ls2. createMessage h entry kvs1 = header h entry @ block ls1 \<and>
                    createMessage h entry kvs2 = header h entry @ block ls2 \<and>
                    mset ls1 = mset ls2)"
proof -
  have "mset (map fieldLine kvs1) = mset (map fieldLine kvs2)"
    using range_order_mset[OF assms] by simp
  then have "\<exists>ls1 ls2. createMessage h entry kvs1 = header h entry @ block ls1 \<and>
                    createMessage h entry kvs2 = header h entry @ block ls2 \<and>
                    mset ls1 = mset ls2"
    using createMessage_block[OF assms(1)] createMessage_block[OF assms(2)] by blast
  moreover have "len (Data entry) \<le> 1 \<longrightarrow> createMessage h entry kvs1 = createMessage h entry kvs2"
    using range_order_short[OF assms] by blast
  ultimately show ?thesis by simp
qed

theorem createMessage_deterministic_up_to_order_witness:
  "range_order (Data boom) [(''n'', VInt 1)] \<and> len (Data boom) \<le> 1 \<and>
   (\<exists>ls1 ls2. createMessage svc_hook boom [(''n'', VInt 1)] = header svc_hook boom @ block ls1 \<and>
              createMessage svc_hook boom [(''n'', VInt 1)] = header svc_hook boom @ block ls2 \<and>
              mset ls1 = mset ls2)"
proof -
  have r: "range_order (Data boom) [(''n'', VInt 1)]" by code_simp
  have l: "len (Data boom) \<le> 1" by code_simp
  from createMessage_deterministic_up_to_order[OF r r, of svc_hook] r l
  show ?thesis by simp
qed

section \<open>Label, application name and message\<close>

text \<open>
  C3: for each of the six severities from panic to debug the text starts with the bold
  label, \<open>@\<close>, the application name, \<open> - \<close> and the message. In the scenario of the
  spec (application \<open>svc\<close>, severity error, message \<open>boom\<close>, field \<open>n\<close> with value 1)
  the text is the one written out, whatever order the loop takes; it contains
  \<open>ERROR\<close>, \<open>svc\<close>, \<open>boom\<close> and, inside the block, the line with \<open>n: 1\<close>.
\<close>

theorem createMessage_label_app_message:
  "(Level entry = PanicLevel \<longrightarrow>
      prefix (''<b>PANIC</b>@'' @ AppName h @ '' - '' @ Message entry) (createMessage h entry kvs)) \<and>
   (Level entry = FatalLevel \<longrightarrow>
      prefix (''<b>FATAL</b>@'' @ AppName h @ '' - '' @ Message entry) (createMessage h entry kvs)) \<and>
   (Level entry = ErrorLevel \<longrightarrow>
      prefix (''<b>ERROR</b>@'' @ AppName h @ '' - '' @ Message entry) (createMessage h entry kvs)) \<and>
   (Level entry = WarnLevel \<longrightarrow>
      prefix (''<b>WARNING</b>@'' @ AppName h @ '' - '' @ Message entry) (createMessage h entry kvs)) \<and>
   (Level entry = InfoLevel \<longrightarrow>
      prefix (''<b>INFO</b>@'' @ AppName h @ '' - '' @ Message entry) (createMessage h entry kvs)) \<and>
   (Level entry = DebugLevel \<longrightarrow>
      prefix (''<b>DEBUG</b>@'' @ AppName h @ '' - '' @ Message entry) (createMessage h entry kvs)) \<and>
   (\<forall>order. range_order (Data boom) order \<longrightarrow>
      createMessage svc_hook boom order
        = ''<b>ERROR</b>@svc - boom'' @ [nl] @ ''<pre>'' @ [nl, tab] @ ''n: 1'' @ [nl] @ ''</pre>'' \<and>
      sublist ''ERROR'' (createMessage svc_hook boom order) \<and>
      sublist ''svc'' (createMessage svc_hook boom order) \<and>
      sublist ''boom'' (createMessage svc_hook boom order) \<and>
      sublist (''<pre>'' @ [nl, tab] @ ''n: 1'' @ [nl] @ ''</pre>'') (createMessage svc_hook boom order))"
proof -
  have scenario: "createMessage svc_hook boom [(''n'', VInt 1)]
        = ''<b>ERROR</b>@svc - boom'' @ [nl] @ ''<pre>'' @ [nl, tab] @ ''n: 1'' @ [nl] @ ''</pre>''"
    by code_simp
  have s1: "sublist ''ERROR'' (createMessage svc_hook boom [(''n'', VInt 1)])"
    by code_simp
  have s2: "sublist ''svc'' (createMessage svc_hook boom [(''n'', VInt 1)])"
    by code_simp
  have s3: "sublist ''boom'' (createMessage svc_hook boom [(''n'', VInt 1)])"
    by code_simp
  have s4: "sublist (''<pre>'' @ [nl, tab] @ ''n: 1'' @ [nl] @ ''</pre>'')
              (createMessage svc_hook boom [(''n'', VInt 1)])"
    by code_simp
  have one: "order = [(''n'', VInt 1)]" if "range_order (Data boom) order" for order
    using that range_order_single[of "(''n'', VInt 1)" order] by (simp add: boom_def)
  have labels: "prefix (levelLabel (Level entry) @ ''@'' @ AppName h @ '' - '' @ Message entry)
                  (createMessage h entry kvs)"
    by (simp add: createMessage_shape header_def)
  show ?thesis
    using labels scenario s1 s2 s3 s4 one
    by (auto simp: levelLabel_def PanicLevel_def FatalLevel_def ErrorLevel_def WarnLevel_def
        InfoLevel_def DebugLevel_def)
qed

theorem createMessage_label_app_message_witness:
  "Level boom = ErrorLevel \<and> range_order (Data boom) [(''n'', VInt 1)] \<and>
   prefix ''<b>ERROR</b>@svc - boom'' (createMessage svc_hook boom [(''n'', VInt 1)]) \<and>
   sublist ''n: 1'' (createMessage svc_hook boom [(''n'', VInt 1)])"
proof -
  have l: "Level boom = ErrorLevel" by (simp add: boom_def)
  have r: "range_order (Data boom) [(''n'', VInt 1)]" by code_simp
  have a: "AppName svc_hook = ''svc''" "Message boom = ''boom''"
    by (simp_all add: AppName_def svc_hook_def boom_def)
  have "sublist ''n: 1'' (''<pre>'' @ [nl, tab] @ ''n: 1'' @ [nl] @ ''</pre>'')"
    by code_simp
  then show ?thesis
    using createMessage_label_app_message[of boom svc_hook "[(''n'', VInt 1)]"] l r a
    by (auto intro: sublist_order.order_trans)
qed

section \<open>Escaping of the fields\<close>

lemma UnescapeString_escape_char:
  "UnescapeString (escape_char c @ t) = c # UnescapeString t"
  by (simp add: escape_char_def)

lemma UnescapeString_EscapeString: "UnescapeString (EscapeString s) = s"
  by (induction s) (simp_all add: EscapeString_def UnescapeString_escape_char)

lemma set_escape_char:
  "CHR ''<'' \<notin> set (escape_char c) \<and> CHR ''>'' \<notin> set (escape_char c)"
  by (simp add: escape_char_def)

lemma EscapeString_no_angle:
  "CHR ''<'' \<notin> set (EscapeString s) \<and> CHR ''>'' \<notin> set (EscapeString s)"
  using set_escape_char by (simp add: EscapeString_def)

lemma escape_char_cases:
  "escape_char c = [c] \<and> c \<noteq> CHR ''&'' \<or>
   (\<exists>ent \<in> set entities. escape_char c = CHR ''&'' # ent)"
  by (simp add: escape_char_def entities_def)

lemma entity_no_amp: "ent \<in> set entities \<Longrightarrow> CHR ''&'' \<notin> set ent"
  by (auto simp: entities_def)

lemma amp_opens_entity:
  "EscapeString s = ps @ CHR ''&'' # ss \<Longrightarrow> \<exists>ent \<in> set entities. prefix ent ss"
proof (induction s arbitrary: ps)
  case Nil
  then show ?case by (simp add: EscapeString_def)
next
  case (Cons c s)
  have E: "EscapeString (c # s) = escape_char c @ EscapeString s"
    by (simp add: EscapeString_def)
  from escape_char_cases[of c] show ?case
  proof
    assume "escape_char c = [c] \<and> c \<noteq> CHR ''&''"
    with Cons.prems E have "c # EscapeString s = ps @ CHR ''&'' # ss" "c \<noteq> CHR ''&''"
      by simp_all
    then obtain ps' where "EscapeString s = ps' @ CHR ''&'' # ss"
      by (cases ps) auto
    then show ?thesis by (rule Cons.IH)
  next
    assume "\<exists>ent \<in> set entities. escape_char c = CHR ''&'' # ent"
    then obtain ent where ent: "ent \<in> set entities" "escape_char c = CHR ''&'' # ent"
      by blast
    with Cons.prems E have eq: "CHR ''&'' # ent @ EscapeString s = ps @ CHR ''&'' # ss"
      by simp
    show ?thesis
    proof (cases ps)
      case Nil
      with eq have "ss = ent @ EscapeString s" by simp
      with ent(1) show ?thesis by (intro bexI[of _ ent]) simp_all
    next
      case (Cons p ps')
      with eq have "ent @ EscapeString s = ps' @ CHR ''&'' # ss" by simp
      then consider us where "ent = ps' @ us" "us @ EscapeString s = CHR ''&'' # ss"
        | us where "EscapeString s = us @ CHR ''&'' # ss"
        by (auto simp: append_eq_append_conv2)
      then show ?thesis
      proof cases
        case 1
        show ?thesis
        proof (cases us)
          case Nil
          with 1 have "EscapeString s = [] @ CHR ''&'' # ss" by simp
          then show ?thesis by (rule Cons.IH)
        next
          case (Cons u us')
          with 1 have "CHR ''&'' \<in> set ent" by auto
          with entity_no_amp[OF ent(1)] show ?thesis by simp
        qed
      next
        case 2
        then show ?thesis by (rule Cons.IH)
      qed
    qed
  qed
qed

text \<open>
  C4: when the event has a field, the text is the first line followed by the block of
  the field lines; each line is the escaped form of tab, key, colon, space and the
  rendered value. An escaped line has no \<open><\<close> and no \<open>>\<close> left, every \<open>&\<close> in it
  opens one of the five entities, and unescaping it gives back the line as rendered.
\<close>

theorem createMessage_fields_escaped:
  assumes "range_order (Data entry) kvs" and "len (Data entry) > 0"
  shows "kvs \<noteq> [] \<and>
         createMessage h entry kvs = header h entry @ block (map fieldLine kvs) \<and>
         (\<forall>kv \<in> set kvs.
            fieldLine kv = EscapeString (tab # fst kv @ '': '' @ fmt_v (snd kv)) \<and>
            CHR ''<'' \<notin> set (fieldLine kv) \<and> CHR ''>'' \<notin> set (fieldLine kv) \<and>
            (\<forall>ps ss. fieldLine kv = ps @ CHR ''&'' # ss \<longrightarrow> (\<exists>ent \<in> set entities. prefix ent ss)) \<and>
            UnescapeString (fieldLine kv) = tab # fst kv @ '': '' @ fmt_v (snd kv))"
proof -
  have "kvs \<noteq> []"
    using len_range_order[OF assms(1)] assms(2) by auto
  moreover have "\<exists>ent \<in> set entities. prefix ent ss"
    if "fieldLine kv = ps @ CHR ''&'' # ss" for kv ps ss
    using that amp_opens_entity[of "rawLine kv" ps ss] by (simp add: fieldLine_def)
  ultimately show ?thesis
    using createMessage_block[OF assms(1), of h] EscapeString_no_angle
    by (auto simp: fieldLine_def rawLine_def UnescapeString_EscapeString)
qed

theorem createMessage_fields_escaped_witness:
  "range_order (Data html_field) [(''html'', VStr ''<b>R&D</b>'')] \<and>
   len (Data html_field) > 0 \<and>
   createMessage svc_hook html_field [(''html'', VStr ''<b>R&D</b>'')]
     = ''<b>ERROR</b>@svc - A walrus appears'' @ [nl] @ ''<pre>'' @ [nl, tab]
         @ ''html: &lt;b&gt;R&amp;D&lt;/b&gt;'' @ [nl] @ ''</pre>'' \<and>
   UnescapeString (tab # ''html: &lt;b&gt;R&amp;D&lt;/b&gt;'') = tab # ''html: <b>R&D</b>''"
proof -
  have r: "range_order (Data html_field) [(''html'', VStr ''<b>R&D</b>'')]" by code_simp
  have l: "len (Data html_field) > 0" by code_simp
  have f: "fieldLine (''html'', VStr ''<b>R&D</b>'') = tab # ''html: &lt;b&gt;R&amp;D&lt;/b&gt;''"
    by code_simp
  have hd: "header svc_hook html_field = ''<b>ERROR</b>@svc - A walrus appears''"
    by code_simp
  note T = createMessage_fields_escaped[OF r l, of svc_hook]
  from T have c: "createMessage svc_hook html_field [(''html'', VStr ''<b>R&D</b>'')]
      = header svc_hook html_field @ block (map fieldLine [(''html'', VStr ''<b>R&D</b>'')])"
    by blast
  from T have "\<forall>kv \<in> set [(''html'', VStr ''<b>R&D</b>'')].
      UnescapeString (fieldLine kv) = tab # fst kv @ '': '' @ fmt_v (snd kv)"
    by blast
  then have u: "UnescapeString (tab # ''html: &lt;b&gt;R&amp;D&lt;/b&gt;'') = tab # ''html: <b>R&D</b>''"
    by (simp add: f del: UnescapeString.simps)
  have "createMessage svc_hook html_field [(''html'', VStr ''<b>R&D</b>'')]
     = ''<b>ERROR</b>@svc - A walrus appears'' @ [nl] @ ''<pre>'' @ [nl, tab]
         @ ''html: &lt;b&gt;R&amp;D&lt;/b&gt;'' @ [nl] @ ''</pre>''"
    unfolding c by (simp add: f hd block_def)
  with r l u show ?thesis by blast
qed

section \<open>A severity without a label\<close>

text \<open>
  C8: the \<^verbatim>\<open>switch\<close> has no default. For a level that is none of its six cases, trace
  among them, the label is empty and the text starts with \<open>@\<close>, the application
  name, \<open> - \<close> and the message; with no field that is the whole text.
\<close>

theorem createMessage_unmapped_level:
  assumes "Level entry \<notin> {PanicLevel, FatalLevel, ErrorLevel, WarnLevel, InfoLevel, DebugLevel}"
  shows "levelLabel (Level entry) = [] \<and>
         prefix (''@'' @ AppName h @ '' - '' @ Message entry) (createMessage h entry kvs) \<and>
         (len (Data entry) = 0 \<longrightarrow>
            createMessage h entry kvs = ''@'' @ AppName h @ '' - '' @ Message entry)"
  using assms by (simp add: createMessage_shape header_def levelLabel_def)

theorem createMessage_unmapped_level_witness:
  "Level trace_entry = TraceLevel \<and>
   Level trace_entry \<notin> {PanicLevel, FatalLevel, ErrorLevel, WarnLevel, InfoLevel, DebugLevel} \<and>
   len (Data trace_entry) = 0 \<and>
   createMessage svc_hook trace_entry [] = ''@svc - step''"
proof -
  have l: "Level trace_entry \<notin> {PanicLevel, FatalLevel, ErrorLevel, WarnLevel, InfoLevel, DebugLevel}"
    by (simp add: trace_entry_def TraceLevel_def PanicLevel_def FatalLevel_def ErrorLevel_def
        WarnLevel_def InfoLevel_def DebugLevel_def)
  have e: "len (Data trace_entry) = 0" by (simp add: trace_entry_def len_def)
  from createMessage_unmapped_level[OF l, of svc_hook "[]"] l e
  show ?thesis by (simp add: trace_entry_def AppName_def svc_hook_def)
qed

section \<open>Asynchronous delivery\<close>

text \<open>
  C5: in asynchronous mode \<^verbatim>\<open>Fire\<close> returns nil, writes nothing itself and hands the
  message to one detached send. What it returns is the same for every library and
  every client, so it does not depend on what the detached send meets.
\<close>

theorem Fire_async_returns_nil:
  assumes "Async h"
  shows "returned (Fire lib h entry kvs) = None \<and>
         stderr (Fire lib h entry kvs) = [] \<and>
         spawned (Fire lib h entry kvs) = [createMessage h entry kvs] \<and>
         Fire lib' (h\<lparr>client := client'\<rparr>) entry kvs = Fire lib h entry kvs"
  using assms by (simp add: Fire_def Async_def createMessage_def AppName_def)

theorem Fire_async_returns_nil_witness:
  "Async (svc_hook\<lparr>async := True, client := refusing_client\<rparr>) \<and>
   fst (sendMessage plain_lib (svc_hook\<lparr>async := True, client := refusing_client\<rparr>)
          (createMessage svc_hook boom [(''n'', VInt 1)])) \<noteq> None \<and>
   returned (Fire plain_lib (svc_hook\<lparr>async := True, client := refusing_client\<rparr>) boom
               [(''n'', VInt 1)]) = None"
proof -
  have a: "Async (svc_hook\<lparr>async := True, client := refusing_client\<rparr>)"
    by (simp add: Async_def)
  have f: "fst (sendMessage plain_lib (svc_hook\<lparr>async := True, client := refusing_client\<rparr>)
          (createMessage svc_hook boom [(''n'', VInt 1)])) \<noteq> None"
    by (simp add: sendMessage_def plain_lib_def refusing_client_def Let_def)
  from Fire_async_returns_nil[OF a, of plain_lib boom "[(''n'', VInt 1)]"] a f
  show ?thesis by simp
qed

section \<open>Synchronous delivery\<close>

lemma doPrintf0_plain: "CHR ''%'' \<notin> set s \<Longrightarrow> doPrintf0 s = s"
  by (induction s) auto

lemma sendMessage_rejected:
  assumes "Marshal lib \<lparr>ChatId_req = ChatId h, ThreadId_req = ThreadId h,
                         Text = msg, ParseMode = ''HTML''\<rparr> = Inr b"
    and "Post (client h) (JoinPath lib (ApiEndpoint h) ''sendMessage'') ''application/json'' b
           = Decoded r"
    and "\<not> Ok r"
  shows "sendMessage lib h msg = (Some (Errorf0 (errorText r)), [])"
  using assms by (simp add: sendMessage_def)

lemma Fire_sync_rejected:
  assumes "\<not> Async h"
    and "Marshal lib \<lparr>ChatId_req = ChatId h, ThreadId_req = ThreadId h,
                         Text = createMessage h entry kvs, ParseMode = ''HTML''\<rparr> = Inr b"
    and "Post (client h) (JoinPath lib (ApiEndpoint h) ''sendMessage'') ''application/json'' b
           = Decoded r"
    and "\<not> Ok r"
  shows "returned (Fire lib h entry kvs) = Some (ErrorString (doPrintf0 (errorText r)))"
    and "stderr (Fire lib h entry kvs) = [''Unable to send message, '' @ doPrintf0 (errorText r)]"
    and "CHR ''%'' \<notin> set (errorText r) \<Longrightarrow>
           returned (Fire lib h entry kvs) = Some (ErrorString (errorText r))"
  using assms(1) sendMessage_rejected[OF assms(2-4)]
  by (simp_all add: Fire_def Errorf0_def doPrintf0_plain)

text \<open>
  C6 at a response whose description holds a percent sign: the synchronous \<^verbatim>\<open>Fire\<close>
  returns an error and writes its diagnostic, but \<^verbatim>\<open>fmt.Errorf(msg)\<close> has read the
  description as a format, and the description is no longer part of the error text.
\<close>

theorem Fire_sync_description_mangled:
  "\<not> Async (svc_hook\<lparr>client := too_long_client\<rparr>) \<and>
   Desc too_long = Some ''Bad Request: message is 100% too long'' \<and>
   returned (Fire plain_lib (svc_hook\<lparr>client := too_long_client\<rparr>) boom [(''n'', VInt 1)])
     = Some (ErrorString
         ''Received error response from Telegram API (error code 400): Bad Request: message is 100%!t(MISSING)oo long'') \<and>
   \<not> sublist ''Bad Request: message is 100% too long''
       ''Received error response from Telegram API (error code 400): Bad Request: message is 100%!t(MISSING)oo long''"
  by code_simp

section \<open>Construction with a failing identity check\<close>

lemma errorText_prefix:
  "prefix ''Received error response from Telegram API'' (errorText r)"
  by (cases "ErrorCode r"; cases "Desc r") (simp_all add: errorText_def)

lemma errorText_code:
  assumes "ErrorCode r = Some code"
  shows "sublist (''(error code '' @ itoa code @ '')'') (errorText r)"
proof -
  have "\<exists>ss. errorText r = ''Received error response from Telegram API ''
           @ (''(error code '' @ itoa code @ '')'') @ ss"
    using assms by (cases "Desc r") (simp_all add: errorText_def)
  then show ?thesis by (metis sublist_appendI)
qed

lemma errorText_desc:
  assumes "Desc r = Some d"
  shows "suffix ('': '' @ d) (errorText r)"
proof -
  have "\<exists>ps. errorText r = ps @ ('': '' @ d)"
    using assms by (cases "ErrorCode r") (simp_all add: errorText_def)
  then show ?thesis by (auto simp: suffix_def)
qed

lemma errorText_bare:
  "ErrorCode r = None \<Longrightarrow> Desc r = None \<Longrightarrow>
   errorText r = ''Received error response from Telegram API''"
  by (simp add: errorText_def)

lemma New_verifyToken:
  "NewTelegramHookWithClient lib a t c th cl options =
     (case verifyToken lib (fold (\<lambda>opt h. opt h) options
             \<lparr>client = cl, appName = a, authToken = t, chatId = c, threadId = th,
              level = ErrorLevel, async = False\<rparr>) of
        Some err \<Rightarrow> Inl err
      | None \<Rightarrow> Inr (fold (\<lambda>opt h. opt h) options
             \<lparr>client = cl, appName = a, authToken = t, chatId = c, threadId = th,
              level = ErrorLevel, async = False\<rparr>))"
  by (simp add: NewTelegramHookWithClient_def Let_def)

text \<open>
  C7: \<open>h\<close> is the hook as the options leave it and \<open>reply\<close> what the identity check
  gets. When the reply is a transport error, a decode error or a response whose
  \<^verbatim>\<open>ok\<close> is false, construction returns an error and no hook. For a transport or
  decode error it is that error. For a response it is the fixed text, then the code in
  \<open>(error code \<dots>)\<close> when there is one, then the description after \<open>: \<close> when
  there is one, a line break and the indented JSON of the response; with neither code
  nor description the fixed text stands alone before the line break.
\<close>

theorem construction_fails_when_check_fails:
  assumes "h = fold (\<lambda>opt h. opt h) options
             \<lparr>client = cl, appName = a, authToken = t, chatId = c, threadId = th,
              level = ErrorLevel, async = False\<rparr>"
    and "Get (client h) (JoinPath lib (ApiEndpoint h) ''getMe'') = reply"
    and "\<forall>r. reply = Decoded r \<longrightarrow> \<not> Ok r"
  shows "\<exists>e. NewTelegramHookWithClient lib a t c th cl options = Inl e \<and>
           (\<forall>err. reply = TransportError err \<longrightarrow> e = err) \<and>
           (\<forall>err. reply = DecodeError err \<longrightarrow> e = err) \<and>
           (\<forall>r. reply = Decoded r \<longrightarrow>
              Error e = errorText r @ [nl] @ MarshalIndent lib r \<and>
              prefix ''Received error response from Telegram API'' (Error e) \<and>
              (\<forall>code. ErrorCode r = Some code \<longrightarrow>
                 sublist (''(error code '' @ itoa code @ '')'') (Error e)) \<and>
              (\<forall>d. Desc r = Some d \<longrightarrow> sublist ('': '' @ d @ [nl]) (Error e)) \<and>
              (ErrorCode r = None \<and> Desc r = None \<longrightarrow>
                 Error e = ''Received error response from Telegram API'' @ [nl]
                             @ MarshalIndent lib r))"
proof (cases reply)
  case (TransportError err)
  with assms(2) have "verifyToken lib h = Some err" by (simp add: verifyToken_def)
  with TransportError show ?thesis by (simp add: New_verifyToken assms(1)[symmetric])
next
  case (DecodeError err)
  with assms(2) have "verifyToken lib h = Some err" by (simp add: verifyToken_def)
  with DecodeError show ?thesis by (simp add: New_verifyToken assms(1)[symmetric])
next
  case (Decoded r)
  with assms(3) have nok: "\<not> Ok r" by simp
  let ?e = "ErrorString (errorText r @ [nl] @ MarshalIndent lib r)"
  have v: "verifyToken lib h = Some ?e"
    using assms(2) Decoded nok by (simp add: verifyToken_def)
  have n: "NewTelegramHookWithClient lib a t c th cl options = Inl ?e"
    using v by (simp add: New_verifyToken assms(1)[symmetric])
  have p: "prefix ''Received error response from Telegram API'' (Error ?e)"
    using errorText_prefix[of r] by (auto simp: prefix_def)
  have cd: "sublist (''(error code '' @ itoa code @ '')'') (Error ?e)"
    if "ErrorCode r = Some code" for code
  proof -
    from errorText_code[OF that] obtain ps ss
      where "errorText r = ps @ (''(error code '' @ itoa code @ '')'') @ ss"
      by (auto simp: sublist_def)
    then have "Error ?e = ps @ (''(error code '' @ itoa code @ '')'')
                 @ (ss @ [nl] @ MarshalIndent lib r)"
      by simp
    then show ?thesis by (metis sublist_appendI)
  qed
  have ds: "sublist ('': '' @ d @ [nl]) (Error ?e)" if "Desc r = Some d" for d
  proof -
    from errorText_desc[OF that] obtain ps where "errorText r = ps @ '': '' @ d"
      by (auto simp: suffix_def)
    then have "Error ?e = ps @ ('': '' @ d @ [nl]) @ MarshalIndent lib r" by simp
    then show ?thesis by (metis sublist_appendI)
  qed
  have b: "Error ?e = ''Received error response from Telegram API'' @ [nl] @ MarshalIndent lib r"
    if "ErrorCode r = None" "Desc r = None"
    using errorText_bare[OF that] by simp
  show ?thesis
    using n p cd ds b Decoded by (intro exI[of _ ?e]) simp
qed

theorem construction_fails_when_check_fails_witness:
  "Get rejecting_client (JoinPath plain_lib ''https://api.telegram.org/bot123:ABC'' ''getMe'')
     = Decoded unauthorized \<and> \<not> Ok unauthorized \<and>
   NewTelegramHookWithClient plain_lib ''svc'' ''123:ABC'' ''42'' [] rejecting_client
       [WithLevel InfoLevel]
     = Inl (ErrorString (''Received error response from Telegram API (error code 401): Unauthorized''
              @ [nl] @ ''{ok:false}''))"
proof -
  let ?h = "\<lparr>client = rejecting_client, appName = ''svc'', authToken = ''123:ABC'',
             chatId = ''42'', threadId = [], level = InfoLevel, async = False\<rparr>"
  have h: "?h = fold (\<lambda>opt h. opt h) [WithLevel InfoLevel]
             \<lparr>client = rejecting_client, appName = ''svc'', authToken = ''123:ABC'',
              chatId = ''42'', threadId = [], level = ErrorLevel, async = False\<rparr>"
    by (simp add: WithLevel_def SetLevel_def)
  have g: "Get (client ?h) (JoinPath plain_lib (ApiEndpoint ?h) ''getMe'') = Decoded unauthorized"
    by (simp add: rejecting_client_def)
  have f: "\<forall>r. Decoded unauthorized = Decoded r \<longrightarrow> \<not> Ok r"
    by (simp add: unauthorized_def)
  have t: "errorText unauthorized
             = ''Received error response from Telegram API (error code 401): Unauthorized''"
    by code_simp
  have m: "MarshalIndent plain_lib unauthorized = ''{ok:false}''"
    by (simp add: plain_lib_def unauthorized_def)
  from construction_fails_when_check_fails[OF h g f]
  obtain e where "NewTelegramHookWithClient plain_lib ''svc'' ''123:ABC'' ''42'' [] rejecting_client
       [WithLevel InfoLevel] = Inl e"
    and "Error e = errorText unauthorized @ [nl] @ MarshalIndent plain_lib unauthorized"
    by blast
  then have "NewTelegramHookWithClient plain_lib ''svc'' ''123:ABC'' ''42'' [] rejecting_client
       [WithLevel InfoLevel]
     = Inl (ErrorString (''Received error response from Telegram API (error code 401): Unauthorized''
              @ [nl] @ ''{ok:false}''))"
    by (cases e) (simp add: t m)
  moreover have "Get rejecting_client
       (JoinPath plain_lib ''https://api.telegram.org/bot123:ABC'' ''getMe'') = Decoded unauthorized"
    by (simp add: rejecting_client_def)
  moreover have "\<not> Ok unauthorized" by (simp add: unauthorized_def)
  ultimately show ?thesis by blast
qed

section \<open>The credential in errors and diagnostics\<close>

text \<open>
  C9, as stated, with a client whose connection is refused: the error of the client
  names the URL of the request, the URL holds the credential, and the hook passes the
  error on. The credential \<open>123:ABC\<close> is in the error that construction returns, in the
  error that a synchronous \<^verbatim>\<open>Fire\<close> returns, and in both lines written to the error
  stream.
\<close>

theorem credential_in_transport_errors:
  "NewTelegramHookWithClient plain_lib ''svc'' ''123:ABC'' ''42'' [] refusing_client []
     = Inl (url_Error ''Get'' ''https://api.telegram.org/bot123:ABC/getMe'' ''connection refused'') \<and>
   sublist ''123:ABC''
     (Error (url_Error ''Get'' ''https://api.telegram.org/bot123:ABC/getMe'' ''connection refused'')) \<and>
   returned (Fire plain_lib (svc_hook\<lparr>client := refusing_client\<rparr>) boom [(''n'', VInt 1)])
     = Some (url_Error ''Post'' ''https://api.telegram.org/bot123:ABC/sendMessage''
               ''connection refused'') \<and>
   sublist ''123:ABC''
     (Error (url_Error ''Post'' ''https://api.telegram.org/bot123:ABC/sendMessage''
               ''connection refused'')) \<and>
   length (stderr (Fire plain_lib (svc_hook\<lparr>client := refusing_client\<rparr>) boom
                     [(''n'', VInt 1)])) = 2 \<and>
   list_all (sublist ''123:ABC'')
     (stderr (Fire plain_lib (svc_hook\<lparr>client := refusing_client\<rparr>) boom [(''n'', VInt 1)]))"
proof -
  have "NewTelegramHookWithClient plain_lib ''svc'' ''123:ABC'' ''42'' [] refusing_client []
     = Inl (url_Error ''Get'' ''https://api.telegram.org/bot123:ABC/getMe'' ''connection refused'')"
    by (simp add: NewTelegramHookWithClient_def verifyToken_def refusing_client_def plain_lib_def
        ApiEndpoint_def)
  moreover have "sublist ''123:ABC''
     (Error (url_Error ''Get'' ''https://api.telegram.org/bot123:ABC/getMe'' ''connection refused''))"
    by code_simp
  moreover have "returned (Fire plain_lib (svc_hook\<lparr>client := refusing_client\<rparr>) boom [(''n'', VInt 1)])
     = Some (url_Error ''Post'' ''https://api.telegram.org/bot123:ABC/sendMessage''
               ''connection refused'')"
    by code_simp
  moreover have "sublist ''123:ABC''
     (Error (url_Error ''Post'' ''https://api.telegram.org/bot123:ABC/sendMessage''
               ''connection refused''))"
    by code_simp
  moreover have "length (stderr (Fire plain_lib (svc_hook\<lparr>client := refusing_client\<rparr>) boom
                     [(''n'', VInt 1)])) = 2"
    by code_simp
  moreover have "list_all (sublist ''123:ABC'')
     (stderr (Fire plain_lib (svc_hook\<lparr>client := refusing_client\<rparr>) boom [(''n'', VInt 1)]))"
    by code_simp
  ultimately show ?thesis by blast
qed

lemma SetAuthToken_elsewhere:
  "createMessage (SetAuthToken h t') entry kvs = createMessage h entry kvs"
  "ChatId (SetAuthToken h t') = ChatId h" "ThreadId (SetAuthToken h t') = ThreadId h"
  "Async (SetAuthToken h t') = Async h" "client (SetAuthToken h t') = client h"
  by (simp_all add: createMessage_def SetAuthToken_def AppName_def ChatId_def ThreadId_def
      Async_def)

text \<open>
  C9, amended: the hook itself puts no credential into an error or a diagnostic. A
  transport or decode error is passed on as the client gave it, and the error for a
  response whose \<^verbatim>\<open>ok\<close> is false is built from the response alone. So whenever a
  second credential \<open>t'\<close> draws the same replies from the client as the configured
  one, the errors returned and the lines written are the same for both: they depend
  on the credential only through what the client answers.
\<close>

theorem errors_depend_on_credential_only_through_replies:
  assumes "Get (client h) (JoinPath lib (ApiEndpoint (SetAuthToken h t')) ''getMe'')
             = Get (client h) (JoinPath lib (ApiEndpoint h) ''getMe'')"
    and "\<forall>body. Post (client h) (JoinPath lib (ApiEndpoint (SetAuthToken h t')) ''sendMessage'')
                   ''application/json'' body
               = Post (client h) (JoinPath lib (ApiEndpoint h) ''sendMessage'')
                   ''application/json'' body"
  shows "verifyToken lib (SetAuthToken h t') = verifyToken lib h \<and>
         sendMessage lib (SetAuthToken h t') msg = sendMessage lib h msg \<and>
         Fire lib (SetAuthToken h t') entry kvs = Fire lib h entry kvs \<and>
         detached lib (SetAuthToken h t') msg = detached lib h msg \<and>
         (\<forall>err. Get (client h) (JoinPath lib (ApiEndpoint h) ''getMe'') = TransportError err \<or>
                Get (client h) (JoinPath lib (ApiEndpoint h) ''getMe'') = DecodeError err
                \<longrightarrow> verifyToken lib h = Some err) \<and>
         (\<forall>r. Get (client h) (JoinPath lib (ApiEndpoint h) ''getMe'') = Decoded r \<and> \<not> Ok r
                \<longrightarrow> verifyToken lib h
                      = Some (ErrorString (errorText r @ [nl] @ MarshalIndent lib r)))"
proof -
  have v: "verifyToken lib (SetAuthToken h t') = verifyToken lib h"
    using assms(1) by (simp add: verifyToken_def SetAuthToken_elsewhere Let_def)
  have s: "sendMessage lib (SetAuthToken h t') m = sendMessage lib h m" for m
    using assms(2) by (simp add: sendMessage_def SetAuthToken_elsewhere Let_def split: sum.splits)
  have f: "Fire lib (SetAuthToken h t') entry kvs = Fire lib h entry kvs"
    by (simp add: Fire_def s SetAuthToken_elsewhere Let_def)
  have d: "detached lib (SetAuthToken h t') msg = detached lib h msg"
    by (simp add: detached_def s)
  have p: "verifyToken lib h = Some err"
    if "Get (client h) (JoinPath lib (ApiEndpoint h) ''getMe'') = TransportError err \<or>
        Get (client h) (JoinPath lib (ApiEndpoint h) ''getMe'') = DecodeError err" for err
    using that by (auto simp: verifyToken_def)
  have r: "verifyToken lib h = Some (ErrorString (errorText r @ [nl] @ MarshalIndent lib r))"
    if "Get (client h) (JoinPath lib (ApiEndpoint h) ''getMe'') = Decoded r \<and> \<not> Ok r" for r
    using that by (simp add: verifyToken_def)
  from v s f d p r show ?thesis by blast
qed

theorem errors_depend_on_credential_only_through_replies_witness:
  "Get rejecting_client (JoinPath plain_lib ''https://api.telegram.org/bot999:XYZ'' ''getMe'')
     = Get rejecting_client (JoinPath plain_lib ''https://api.telegram.org/bot123:ABC'' ''getMe'') \<and>
   verifyToken plain_lib (SetAuthToken (svc_hook\<lparr>client := rejecting_client\<rparr>) ''999:XYZ'')
     = verifyToken plain_lib (svc_hook\<lparr>client := rejecting_client\<rparr>) \<and>
   verifyToken plain_lib (svc_hook\<lparr>client := rejecting_client\<rparr>)
     = Some (ErrorString (errorText unauthorized @ [nl] @ ''{ok:false}''))"
proof -
  let ?h = "svc_hook\<lparr>client := rejecting_client\<rparr>"
  have g: "Get (client ?h) (JoinPath plain_lib (ApiEndpoint (SetAuthToken ?h ''999:XYZ'')) ''getMe'')
             = Get (client ?h) (JoinPath plain_lib (ApiEndpoint ?h) ''getMe'')"
    by (simp add: rejecting_client_def)
  have p: "\<forall>body. Post (client ?h)
                   (JoinPath plain_lib (ApiEndpoint (SetAuthToken ?h ''999:XYZ'')) ''sendMessage'')
                   ''application/json'' body
               = Post (client ?h) (JoinPath plain_lib (ApiEndpoint ?h) ''sendMessage'')
                   ''application/json'' body"
    by (simp add: rejecting_client_def)
  have d: "Get (client ?h) (JoinPath plain_lib (ApiEndpoint ?h) ''getMe'') = Decoded unauthorized \<and>
           \<not> Ok unauthorized"
    by (simp add: rejecting_client_def unauthorized_def)
  have m: "MarshalIndent plain_lib unauthorized = ''{ok:false}''"
    by (simp add: plain_lib_def unauthorized_def)
  have e: "Get rejecting_client (JoinPath plain_lib ''https://api.telegram.org/bot999:XYZ'' ''getMe'')
     = Get rejecting_client (JoinPath plain_lib ''https://api.telegram.org/bot123:ABC'' ''getMe'')"
    by (simp add: rejecting_client_def)
  note T = errors_depend_on_credential_only_through_replies[OF g p]
  from T have "verifyToken plain_lib (SetAuthToken ?h ''999:XYZ'') = verifyToken plain_lib ?h"
    by blast
  moreover from T d have "verifyToken plain_lib ?h
      = Some (ErrorString (errorText unauthorized @ [nl] @ MarshalIndent plain_lib unauthorized))"
    by blast
  ultimately show ?thesis using e m by simp
qed

section \<open>The defaults\<close>

text \<open>
  C10: a hook built with no options has the minimum severity \<^verbatim>\<open>ErrorLevel\<close>, is
  registered for panic, fatal and error, and is synchronous: \<^verbatim>\<open>Fire\<close> starts no
  detached send and returns what \<^verbatim>\<open>sendMessage\<close> returns on the calling thread.
\<close>

theorem default_hook:
  assumes "NewTelegramHookWithClient lib a t c th cl [] = Inr h"
  shows "Level_of h = ErrorLevel \<and>
         Levels h = Inr [PanicLevel, FatalLevel, ErrorLevel] \<and>
         \<not> Async h \<and>
         spawned (Fire lib h entry kvs) = [] \<and>
         returned (Fire lib h entry kvs) = fst (sendMessage lib h (createMessage h entry kvs))"
proof -
  from assms have h: "h = \<lparr>client = cl, appName = a, authToken = t, chatId = c, threadId = th,
                           level = ErrorLevel, async = False\<rparr>"
    by (simp add: NewTelegramHookWithClient_def Let_def split: option.splits)
  have "Levels h = Inr [PanicLevel, FatalLevel, ErrorLevel]"
    by (simp add: h Levels_def AllLevels_def ErrorLevel_def)
  moreover have "spawned (Fire lib h entry kvs) = [] \<and>
      returned (Fire lib h entry kvs) = fst (sendMessage lib h (createMessage h entry kvs))"
    by (cases "sendMessage lib h (createMessage h entry kvs)")
       (simp add: Fire_def Async_def h split: option.splits)
  ultimately show ?thesis by (simp add: Level_of_def Async_def h)
qed

theorem default_hook_witness:
  "NewTelegramHookWithClient plain_lib ''svc'' ''123:ABC'' ''42'' [] accepting_client [] = Inr svc_hook \<and>
   Level_of svc_hook = ErrorLevel \<and>
   Levels svc_hook = Inr [PanicLevel, FatalLevel, ErrorLevel] \<and>
   \<not> Async svc_hook \<and>
   spawned (Fire plain_lib svc_hook boom [(''n'', VInt 1)]) = []"
proof -
  have n: "NewTelegramHookWithClient plain_lib ''svc'' ''123:ABC'' ''42'' [] accepting_client []
             = Inr svc_hook"
    by (simp add: NewTelegramHookWithClient_def verifyToken_def svc_hook_def accepting_client_def
        ok_response_def)
  from default_hook[OF n, of boom "[(''n'', VInt 1)]"] n show ?thesis by simp
qed

end
